theory Spec2Isabelle
  imports Main
begin

section \<open>Python values used by the handlers of app.py\<close>

text \<open>
  The handlers of \<^verbatim>\<open>src/app.py\<close> receive decoded JSON (the request body, the
  upstream responses) and build JSON (the replies). A decoded JSON value is one of
  Python's \<^verbatim>\<open>None\<close>, \<^verbatim>\<open>bool\<close>, \<^verbatim>\<open>int\<close>, \<^verbatim>\<open>float\<close>,
  \<^verbatim>\<open>str\<close>, \<^verbatim>\<open>list\<close> and \<^verbatim>\<open>dict\<close> (keys are strings).

  \<^item> A \<^verbatim>\<open>float\<close> is held as its Python \<^verbatim>\<open>repr\<close> (\<open>''48.85''\<close>,
    \<open>''1e-07''\<close>, \<open>''nan''\<close>): the code never computes with a float, it prints it, tests
    it for zero and passes it on.
  \<^item> A \<^verbatim>\<open>str\<close> is a \<open>string\<close> whose characters stand for the code points
    below 256; \<open>py_lower\<close>, \<open>py_isspace\<close> and \<open>py_repr_str\<close> are Python's functions on
    that range.
  \<^item> A \<^verbatim>\<open>dict\<close> is the list of its items in insertion order; a look-up takes the
    binding of the key (\<open>map_of\<close>).
\<close>

datatype json =
    JNull
  | JBool bool
  | JInt int
  | JFloat string
  | JStr string
  | JArr "json list"
  | JObj "(string \<times> json) list"

text \<open>
  The exceptions a handler can meet. The first four are raised by the interpreter on
  the value operations below; \<open>LibraryError msg\<close> is an exception raised by Flask,
  requests or the OpenAI client (a rejected body, a network failure, a body that is not
  JSON, an API error), with \<open>msg\<close> what \<^verbatim>\<open>str(e)\<close> gives.
\<close>

datatype py_error =
    AttributeError
  | TypeError
  | KeyError
  | IndexError
  | LibraryError string

text \<open>
  \<^verbatim>\<open>str(e)\<close>: the interpreter's message for its own exceptions is a parameter
  (it differs between Python versions), a library's message is the one it carries.
\<close>

definition str_exc :: "(py_error \<Rightarrow> string) \<Rightarrow> py_error \<Rightarrow> string" where
  "str_exc builtin_msg e = (case e of LibraryError m \<Rightarrow> m | _ \<Rightarrow> builtin_msg e)"

definition bindE :: "py_error + 'a \<Rightarrow> ('a \<Rightarrow> py_error + 'b) \<Rightarrow> py_error + 'b" where
  "bindE m f = (case m of Inl e \<Rightarrow> Inl e | Inr x \<Rightarrow> f x)"

subsection \<open>Truth value, membership, subscripts\<close>

text \<open>\<^verbatim>\<open>bool(x)\<close>, as \<^verbatim>\<open>if x\<close> and \<^verbatim>\<open>not x\<close> take it.\<close>

fun truthy :: "json \<Rightarrow> bool" where
  "truthy JNull = False"
| "truthy (JBool b) = b"
| "truthy (JInt i) = (i \<noteq> 0)"
| "truthy (JFloat r) = (r \<noteq> ''0.0'' \<and> r \<noteq> ''-0.0'')"
| "truthy (JStr s) = (s \<noteq> [])"
| "truthy (JArr xs) = (xs \<noteq> [])"
| "truthy (JObj kvs) = (kvs \<noteq> [])"

text \<open>\<^verbatim>\<open>d.get(k, default)\<close>: only a dict has the method.\<close>

fun dict_get :: "json \<Rightarrow> string \<Rightarrow> json \<Rightarrow> py_error + json" where
  "dict_get (JObj kvs) k d = Inr (case map_of kvs k of Some v \<Rightarrow> v | None \<Rightarrow> d)"
| "dict_get _ k d = Inl AttributeError"

text \<open>\<^verbatim>\<open>x[k]\<close> with a string \<open>k\<close>.\<close>

fun getitem_str :: "json \<Rightarrow> string \<Rightarrow> py_error + json" where
  "getitem_str (JObj kvs) k = (case map_of kvs k of Some v \<Rightarrow> Inr v | None \<Rightarrow> Inl KeyError)"
| "getitem_str _ k = Inl TypeError"

text \<open>
  \<^verbatim>\<open>x[i]\<close> with \<open>i\<close> one of the literals 0 and 1: an element of a list, a
  character of a string, a missing key of a dict (its keys are strings).
\<close>

fun getitem_idx :: "json \<Rightarrow> nat \<Rightarrow> py_error + json" where
  "getitem_idx (JArr xs) i = (if i < length xs then Inr (xs ! i) else Inl IndexError)"
| "getitem_idx (JStr s) i = (if i < length s then Inr (JStr [s ! i]) else Inl IndexError)"
| "getitem_idx (JObj kvs) i = Inl KeyError"
| "getitem_idx _ i = Inl TypeError"

fun is_substr :: "string \<Rightarrow> string \<Rightarrow> bool" where
  "is_substr p [] = (p = [])"
| "is_substr p (c # cs) = (take (length p) (c # cs) = p \<or> is_substr p cs)"

text \<open>\<^verbatim>\<open>k in x\<close> with a string \<open>k\<close>: a key of a dict, an element of a list, a substring.\<close>

fun py_contains :: "json \<Rightarrow> string \<Rightarrow> py_error + bool" where
  "py_contains (JObj kvs) k = Inr (map_of kvs k \<noteq> None)"
| "py_contains (JArr xs) k = Inr (JStr k \<in> set xs)"
| "py_contains (JStr s) k = Inr (is_substr k s)"
| "py_contains _ k = Inl TypeError"

text \<open>\<^verbatim>\<open>for x in v\<close>: the elements of a list, the characters of a string, the keys of a dict.\<close>

fun py_iter :: "json \<Rightarrow> py_error + json list" where
  "py_iter (JArr xs) = Inr xs"
| "py_iter (JStr s) = Inr (map (\<lambda>c. JStr [c]) s)"
| "py_iter (JObj kvs) = Inr (map (\<lambda>kv. JStr (fst kv)) kvs)"
| "py_iter _ = Inl TypeError"

subsection \<open>Strings\<close>

definition py_lower_char :: "char \<Rightarrow> char" where
  "py_lower_char c =
     (let n = (of_char c :: nat)
      in if (65 \<le> n \<and> n \<le> 90) \<or> (192 \<le> n \<and> n \<le> 214) \<or> (216 \<le> n \<and> n \<le> 222)
         then char_of (n + 32) else c)"

definition py_lower :: "string \<Rightarrow> string" where
  "py_lower s = map py_lower_char s"

definition py_isspace :: "char \<Rightarrow> bool" where
  "py_isspace c =
     (let n = (of_char c :: nat)
      in (9 \<le> n \<and> n \<le> 13) \<or> (28 \<le> n \<and> n \<le> 32) \<or> n = 133 \<or> n = 160)"

definition py_strip :: "string \<Rightarrow> string" where
  "py_strip s = rev (dropWhile py_isspace (rev (dropWhile py_isspace s)))"

text \<open>\<^verbatim>\<open>s.split(sep)\<close> for a one-character separator: never empty.\<close>

fun py_split :: "char \<Rightarrow> string \<Rightarrow> string list" where
  "py_split sep [] = [[]]"
| "py_split sep (c # cs) =
     (if c = sep then [] # py_split sep cs
      else (case py_split sep cs of [] \<Rightarrow> [[c]] | w # ws \<Rightarrow> (c # w) # ws))"

subsection \<open>Printing: \<^verbatim>\<open>str\<close> and \<^verbatim>\<open>repr\<close>, as an f-string uses them\<close>

fun show_nat :: "nat \<Rightarrow> string" where
  "show_nat n = (if n < 10 then [char_of (48 + n)] else show_nat (n div 10) @ [char_of (48 + n mod 10)])"

definition show_int :: "int \<Rightarrow> string" where
  "show_int i = (if i < 0 then CHR ''-'' # show_nat (nat (- i)) else show_nat (nat i))"

definition hex_digit :: "nat \<Rightarrow> char" where
  "hex_digit d = (if d < 10 then char_of (48 + d) else char_of (87 + d))"

text \<open>
  One character of \<^verbatim>\<open>repr(s)\<close> inside the quote \<open>q\<close>: the backslash and the quote
  are escaped, tab, newline and carriage return have their letters, the other
  non-printable code points below 256 are written \<^verbatim>\<open>\xNN\<close>.
\<close>

definition py_repr_char :: "char \<Rightarrow> char \<Rightarrow> string" where
  "py_repr_char q c =
     (let n = (of_char c :: nat)
      in if c = q \<or> c = CHR 0x5C then [CHR 0x5C, c]
         else if n = 9 then [CHR 0x5C, CHR ''t'']
         else if n = 10 then [CHR 0x5C, CHR ''n'']
         else if n = 13 then [CHR 0x5C, CHR ''r'']
         else if n < 32 \<or> n = 127 \<or> (128 \<le> n \<and> n \<le> 160) \<or> n = 173
           then [CHR 0x5C, CHR ''x'', hex_digit (n div 16), hex_digit (n mod 16)]
         else [c])"

definition py_repr_str :: "string \<Rightarrow> string" where
  "py_repr_str s =
     (let q = (if CHR 0x27 \<in> set s \<and> CHR 0x22 \<notin> set s then CHR 0x22 else CHR 0x27)
      in q # concat (map (py_repr_char q) s) @ [q])"

fun join :: "string \<Rightarrow> string list \<Rightarrow> string" where
  "join sep [] = []"
| "join sep [x] = x"
| "join sep (x # y # ys) = x @ sep @ join sep (y # ys)"

fun py_repr :: "json \<Rightarrow> string" where
  "py_repr JNull = ''None''"
| "py_repr (JBool b) = (if b then ''True'' else ''False'')"
| "py_repr (JInt i) = show_int i"
| "py_repr (JFloat r) = r"
| "py_repr (JStr s) = py_repr_str s"
| "py_repr (JArr xs) = ''['' @ join '', '' (map py_repr xs) @ '']''"
| "py_repr (JObj kvs) =
     ''{'' @ join '', '' (map (\<lambda>kv. py_repr_str (fst kv) @ '': '' @ py_repr (snd kv)) kvs) @ ''}''"

text \<open>\<^verbatim>\<open>str(x)\<close>, what \<^verbatim>\<open>f"{x}"\<close> inserts: a string as it is, anything else as its repr.\<close>

definition py_str :: "json \<Rightarrow> string" where
  "py_str j = (case j of JStr s \<Rightarrow> s | _ \<Rightarrow> py_repr j)"

section \<open>The outside world\<close>

text \<open>
  A handler talks to the language model through \<^verbatim>\<open>client.chat.completions.create\<close>
  and to the geodata services through \<^verbatim>\<open>requests.get\<close>. Either call returns or
  raises. What it returns is held as far as the code reads it: of a completion the
  \<^verbatim>\<open>message.content\<close> of each choice (\<open>None\<close> for Python's None), of an HTTP
  response its \<^verbatim>\<open>status_code\<close> and what \<^verbatim>\<open>.json()\<close> gives or raises.

  Every call a handler makes is appended to a log of outbound calls, the only state a
  handler is given and hands back; \<^verbatim>\<open>print\<close> is not modelled. A \<open>config\<close>
  holds the three keys read from the environment at start-up (lines 15 to 24); the
  handlers only read it.
\<close>

datatype outbound =
    ChatCompletion string "(string \<times> json) list" string
  | HttpGet string "(string \<times> string) list"

record http_response =
  status_code :: int
  json_body :: "py_error + json"

record upstream =
  chat_create :: "string \<Rightarrow> (string \<times> json) list \<Rightarrow> string \<Rightarrow> py_error + string option list"
  requests_get :: "string \<Rightarrow> (string \<times> string) list \<Rightarrow> py_error + http_response"

record config =
  OPENAI_API_KEY :: string
  WEATHER_API_KEY :: string
  OPENTRIPMAP_API_KEY :: string

record response =
  status :: nat
  body :: json

text \<open>\<^verbatim>\<open>jsonify(x)\<close> is a 200, \<^verbatim>\<open>jsonify(x), n\<close> has status \<open>n\<close>.\<close>

definition jsonify :: "json \<Rightarrow> nat \<Rightarrow> response" where
  "jsonify x n = \<lparr>status = n, body = x\<rparr>"

definition error_body :: "string \<Rightarrow> json" where
  "error_body msg = JObj [(''error'', JStr msg)]"

definition do_get ::
  "upstream \<Rightarrow> string \<Rightarrow> (string \<times> string) list \<Rightarrow> outbound list
     \<Rightarrow> (py_error + http_response) \<times> outbound list" where
  "do_get up url hdrs log = (requests_get up url hdrs, log @ [HttpGet url hdrs])"

definition do_chat ::
  "upstream \<Rightarrow> string \<Rightarrow> (string \<times> json) list \<Rightarrow> string \<Rightarrow> outbound list
     \<Rightarrow> (py_error + string option list) \<times> outbound list" where
  "do_chat up model msgs temp log =
     (chat_create up model msgs temp, log @ [ChatCompletion model msgs temp])"

text \<open>The closing \<^verbatim>\<open>except Exception as e\<close> of each handler: a 500 with \<^verbatim>\<open>str(e)\<close>.\<close>

definition catch_500 ::
  "(py_error \<Rightarrow> string) \<Rightarrow> (py_error + response) \<times> outbound list \<Rightarrow> response \<times> outbound list" where
  "catch_500 builtin_msg r =
     (case fst r of
        Inl e \<Rightarrow> (jsonify (error_body (str_exc builtin_msg e)) 500, snd r)
      | Inr x \<Rightarrow> (x, snd r))"

text \<open>\<^verbatim>\<open>request.args.get(k)\<close>: the first value of the query parameter, or None.\<close>

definition args_get :: "(string \<times> string) list \<Rightarrow> string \<Rightarrow> string option" where
  "args_get args k = map_of args k"

definition nominatim_url :: "string \<Rightarrow> string" where
  "nominatim_url q = ''https://nominatim.openstreetmap.org/search?format=json&q='' @ q"

definition travel_buddy_headers :: "(string \<times> string) list" where
  "travel_buddy_headers = [(''User-Agent'', ''travel-buddy'')]"

section \<open>The chat endpoint (app.py, lines 29 to 113)\<close>

definition nl :: string where
  "nl = [CHR 0x0A]"

definition system_prompt :: string where
  "system_prompt = nl @ concat (map (\<lambda>l. l @ nl)
     [''You are a helpful AI travel buddy.'',
      ''Answer concisely in short bullet points only.'',
      ''Do NOT write long paragraphs or extra descriptions.'',
      ''Do NOT use markdown, headings, or bold.'',
      ''Follow this exact format:'',
      [],
      ''Day 1:'',
      ''- Morning: ...'',
      ''- Afternoon: ...'',
      ''- Evening: ...'',
      [],
      ''Day 2:'',
      ''- Morning: ...'',
      ''- Afternoon: ...'',
      ''- Evening: ...'',
      [],
      ''Day 3:'',
      ''- Morning: ...'',
      ''- Afternoon: ...'',
      ''- Evening: ...'',
      [],
      ''Tips:'',
      ''- Tip 1'',
      ''- Tip 2'',
      [],
      ''Keep all sentences to one line max. Only provide essential info for each time slot. No extra text.''])"

definition city_prompt :: string where
  "city_prompt =
     ''Extract only the main city name from this query. Reply with just the city, nothing else.''"

definition greeting_reply :: string where
  "greeting_reply = ''Hello! I can help you plan trips. Where would you like to go?''"

text \<open>
  Line 66, \<^verbatim>\<open>user_input and user_input.lower() in ["hi", "hello", "hey"]\<close>: a false
  \<open>user_input\<close> ends the test, a true one that is no string has no \<^verbatim>\<open>lower\<close>.
\<close>

definition is_greeting :: "json \<Rightarrow> py_error + bool" where
  "is_greeting user_input =
     (if \<not> truthy user_input then Inr False
      else (case user_input of
              JStr s \<Rightarrow> Inr (py_lower s \<in> set [''hi'', ''hello'', ''hey''])
            | _ \<Rightarrow> Inl AttributeError))"

text \<open>\<^verbatim>\<open>completion.choices[0].message.content\<close>\<close>

definition first_content :: "string option list \<Rightarrow> py_error + string option" where
  "first_content choices = (case choices of [] \<Rightarrow> Inl IndexError | c # _ \<Rightarrow> Inr c)"

text \<open>
  Lines 84 to 96: the city starts as None; the second completion's content, stripped,
  replaces it unless the call, the subscript or \<^verbatim>\<open>.strip()\<close> (on a None content)
  raises, which the inner \<^verbatim>\<open>except\<close> swallows.
\<close>

definition extract_city :: "upstream \<Rightarrow> json \<Rightarrow> outbound list \<Rightarrow> json \<times> outbound list" where
  "extract_city up user_input log =
     (let msgs = [(''system'', JStr city_prompt), (''user'', user_input)];
          r = do_chat up ''gpt-4o-mini'' msgs ''0'' log;
          city = bindE (bindE (fst r) first_content)
                   (\<lambda>content. case content of
                                 None \<Rightarrow> Inl AttributeError
                               | Some s \<Rightarrow> Inr (JStr (py_strip s)))
      in (case city of Inl e \<Rightarrow> JNull | Inr c \<Rightarrow> c, snd r))"

text \<open>
  Lines 100 to 107, entered when \<^verbatim>\<open>not city\<close>: the message itself is the query.
  An exception anywhere inside leaves \<open>city\<close> as it was.
\<close>

definition fallback_city ::
  "upstream \<Rightarrow> json \<Rightarrow> json \<Rightarrow> outbound list \<Rightarrow> json \<times> outbound list" where
  "fallback_city up user_input city log =
     (let geo_url = nominatim_url (py_str user_input);
          r = do_get up geo_url travel_buddy_headers log;
          city' = bindE (bindE (fst r) json_body)
                    (\<lambda>geo_res.
                       if truthy geo_res then
                         bindE (getitem_idx geo_res 0) (\<lambda>first.
                         bindE (dict_get first ''display_name'' (JStr [])) (\<lambda>display_name.
                           if truthy display_name then
                             (case display_name of
                                JStr s \<Rightarrow>
                                  (case py_split (CHR '','') s of
                                     [] \<Rightarrow> Inl IndexError
                                   | w # _ \<Rightarrow> Inr (JStr w))
                              | _ \<Rightarrow> Inl AttributeError)
                           else Inr JNull))
                       else Inr city)
      in (case city' of Inl e \<Rightarrow> city | Inr c \<Rightarrow> c, snd r))"

definition chat_try ::
  "upstream \<Rightarrow> py_error + json \<Rightarrow> outbound list \<Rightarrow> (py_error + response) \<times> outbound list" where
  "chat_try up request_json log =
     (case bindE request_json (\<lambda>j. dict_get j ''message'' JNull) of
        Inl e \<Rightarrow> (Inl e, log)
      | Inr user_input \<Rightarrow>
          (case is_greeting user_input of
             Inl e \<Rightarrow> (Inl e, log)
           | Inr True \<Rightarrow>
               (Inr (jsonify (JObj [(''reply'', JStr greeting_reply), (''city'', JNull)]) 200), log)
           | Inr False \<Rightarrow>
               (let msgs = [(''system'', JStr system_prompt), (''user'', user_input)];
                    r = do_chat up ''gpt-4o-mini'' msgs ''0.7'' log
                in (case bindE (fst r) first_content of
                      Inl e \<Rightarrow> (Inl e, snd r)
                    | Inr content \<Rightarrow>
                        (let reply = (case content of None \<Rightarrow> JNull | Some s \<Rightarrow> JStr s);
                             c = extract_city up user_input (snd r);
                             c' = (if \<not> truthy (fst c)
                                   then fallback_city up user_input (fst c) (snd c) else c)
                         in (Inr (jsonify (JObj [(''reply'', reply), (''city'', fst c')]) 200),
                             snd c'))))))"

text \<open>
  \<open>request_json\<close> is what \<^verbatim>\<open>request.json\<close> gives: the decoded body, or the
  exception Flask raises on a body it rejects.
\<close>

definition chat ::
  "(py_error \<Rightarrow> string) \<Rightarrow> upstream \<Rightarrow> py_error + json \<Rightarrow> outbound list
     \<Rightarrow> response \<times> outbound list" where
  "chat builtin_msg up request_json log = catch_500 builtin_msg (chat_try up request_json log)"

section \<open>The weather endpoint (lines 117 to 138)\<close>

definition weather_url :: "config \<Rightarrow> string \<Rightarrow> string" where
  "weather_url cfg city =
     ''http://api.openweathermap.org/data/2.5/weather?q='' @ city @ ''&appid=''
       @ WEATHER_API_KEY cfg @ ''&units=metric''"

definition weather_try ::
  "config \<Rightarrow> upstream \<Rightarrow> string \<Rightarrow> outbound list \<Rightarrow> (py_error + response) \<times> outbound list" where
  "weather_try cfg up city log =
     (let r = do_get up (weather_url cfg city) [] log
      in (bindE (fst r) (\<lambda>res.
          bindE (json_body res) (\<lambda>data.
          bindE (if status_code res \<noteq> 200 then Inr True
                 else bindE (py_contains data ''main'') (\<lambda>b. Inr (\<not> b))) (\<lambda>not_found.
            if not_found then Inr (jsonify (error_body ''Weather not found'') 404)
            else
              bindE (bindE (getitem_str data ''main'') (\<lambda>m. getitem_str m ''temp'')) (\<lambda>temp.
              bindE (bindE (bindE (getitem_str data ''weather'') (\<lambda>w. getitem_idx w 0))
                       (\<lambda>w0. getitem_str w0 ''description'')) (\<lambda>description.
              bindE (dict_get data ''name'' (JStr city)) (\<lambda>name.
                Inr (jsonify (JObj [(''temperature'', temp), (''condition'', description),
                                    (''city'', name)]) 200))))))),
          snd r))"

definition weather ::
  "(py_error \<Rightarrow> string) \<Rightarrow> config \<Rightarrow> upstream \<Rightarrow> (string \<times> string) list \<Rightarrow> outbound list
     \<Rightarrow> response \<times> outbound list" where
  "weather builtin_msg cfg up args log =
     (case args_get args ''city'' of
        None \<Rightarrow> (jsonify (error_body ''City is required'') 400, log)
      | Some city \<Rightarrow>
          if city = [] then (jsonify (error_body ''City is required'') 400, log)
          else catch_500 builtin_msg (weather_try cfg up city log))"

section \<open>The hotels endpoint (lines 142 to 190)\<close>

definition places_url :: "config \<Rightarrow> json \<Rightarrow> json \<Rightarrow> string" where
  "places_url cfg lat lon =
     ''https://api.opentripmap.com/0.1/en/places/radius?'' @ ''radius=5000&lon='' @ py_str lon
       @ ''&lat='' @ py_str lat @ ''&kinds=accomodations&limit=5&apikey=''
       @ OPENTRIPMAP_API_KEY cfg"

text \<open>
  One turn of the loop of lines 166 to 185: \<open>Inr None\<close> is \<^verbatim>\<open>continue\<close>,
  \<open>Inr (Some h)\<close> the dict appended.
\<close>

definition hotel_entry :: "string \<Rightarrow> json \<Rightarrow> py_error + json option" where
  "hotel_entry city place =
     bindE (getitem_str place ''properties'') (\<lambda>props.
     bindE (bindE (getitem_str place ''geometry'') (\<lambda>g. getitem_str g ''coordinates'')) (\<lambda>coords.
     bindE (dict_get props ''name'' (JStr ''Unnamed'')) (\<lambda>hotel_name.
       if \<not> truthy hotel_name then Inr None
       else
         (let booking_link = ''https://www.booking.com/searchresults.html?ss=''
                               @ py_str hotel_name @ ''+'' @ city;
              google_maps_link = ''https://www.google.com/maps/search/''
                                   @ py_str hotel_name @ ''+'' @ city
          in bindE (getitem_idx coords 1) (\<lambda>c1.
             bindE (getitem_idx coords 0) (\<lambda>c0.
               Inr (Some (JObj
                 [(''name'', hotel_name),
                  (''lat'', c1),
                  (''lon'', c0),
                  (''map_link'', JStr (''https://www.openstreetmap.org/?mlat='' @ py_str c1
                      @ ''&mlon='' @ py_str c0 @ ''#map=18/'' @ py_str c1 @ ''/'' @ py_str c0)),
                  (''booking_link'', JStr booking_link),
                  (''google_maps_link'', JStr google_maps_link)]))))))))"

fun hotels_loop :: "string \<Rightarrow> json list \<Rightarrow> json list \<Rightarrow> py_error + json list" where
  "hotels_loop city [] hotels_list = Inr hotels_list"
| "hotels_loop city (place # places) hotels_list =
     (case hotel_entry city place of
        Inl e \<Rightarrow> Inl e
      | Inr None \<Rightarrow> hotels_loop city places hotels_list
      | Inr (Some h) \<Rightarrow> hotels_loop city places (hotels_list @ [h]))"

text \<open>Lines 165 to 187, from the decoded points-of-interest response on.\<close>

definition hotels_of :: "string \<Rightarrow> json \<Rightarrow> py_error + response" where
  "hotels_of city places_res =
     bindE (dict_get places_res ''features'' (JArr [])) (\<lambda>features.
     bindE (py_iter features) (\<lambda>places.
     bindE (hotels_loop city places []) (\<lambda>hotels_list.
       Inr (jsonify (JArr hotels_list) 200))))"

definition hotels_try ::
  "config \<Rightarrow> upstream \<Rightarrow> string \<Rightarrow> outbound list \<Rightarrow> (py_error + response) \<times> outbound list" where
  "hotels_try cfg up city log =
     (let r1 = do_get up (nominatim_url city) travel_buddy_headers log
      in (case bindE (fst r1) json_body of
            Inl e \<Rightarrow> (Inl e, snd r1)
          | Inr nom_res \<Rightarrow>
              if \<not> truthy nom_res then (Inr (jsonify (error_body ''City not found'') 404), snd r1)
              else
                (case bindE (bindE (getitem_idx nom_res 0) (\<lambda>n0. getitem_str n0 ''lat'')) (\<lambda>lat.
                      bindE (bindE (getitem_idx nom_res 0) (\<lambda>n0. getitem_str n0 ''lon'')) (\<lambda>lon.
                        Inr (lat, lon))) of
                   Inl e \<Rightarrow> (Inl e, snd r1)
                 | Inr (lat, lon) \<Rightarrow>
                     (let r2 = do_get up (places_url cfg lat lon) [] (snd r1)
                      in (bindE (bindE (fst r2) json_body) (hotels_of city), snd r2)))))"

definition hotels ::
  "(py_error \<Rightarrow> string) \<Rightarrow> config \<Rightarrow> upstream \<Rightarrow> (string \<times> string) list \<Rightarrow> outbound list
     \<Rightarrow> response \<times> outbound list" where
  "hotels builtin_msg cfg up args log =
     (case args_get args ''city'' of
        None \<Rightarrow> (jsonify (error_body ''City is required'') 400, log)
      | Some city \<Rightarrow>
          if city = [] then (jsonify (error_body ''City is required'') 400, log)
          else catch_500 builtin_msg (hotels_try cfg up city log))"

section \<open>The geocode endpoint (lines 195 to 215)\<close>

definition geocode_try ::
  "upstream \<Rightarrow> string \<Rightarrow> outbound list \<Rightarrow> (py_error + response) \<times> outbound list" where
  "geocode_try up place log =
     (let r = do_get up (nominatim_url place) travel_buddy_headers log
      in (bindE (bindE (fst r) json_body) (\<lambda>res.
            if truthy res then
              bindE (bindE (getitem_idx res 0) (\<lambda>r0. dict_get r0 ''display_name'' (JStr place))) (\<lambda>name.
              bindE (bindE (getitem_idx res 0) (\<lambda>r0. getitem_str r0 ''lat'')) (\<lambda>lat.
              bindE (bindE (getitem_idx res 0) (\<lambda>r0. getitem_str r0 ''lon'')) (\<lambda>lon.
                Inr (jsonify (JObj [(''name'', name), (''lat'', lat), (''lon'', lon)]) 200))))
            else Inr (jsonify (error_body ''No results found'') 404)),
          snd r))"

definition geocode ::
  "(py_error \<Rightarrow> string) \<Rightarrow> upstream \<Rightarrow> (string \<times> string) list \<Rightarrow> outbound list
     \<Rightarrow> response \<times> outbound list" where
  "geocode builtin_msg up args log =
     (case args_get args ''place'' of
        None \<Rightarrow> (jsonify (error_body ''Place is required'') 400, log)
      | Some place \<Rightarrow>
          if place = [] then (jsonify (error_body ''Place is required'') 400, log)
          else catch_500 builtin_msg (geocode_try up place log))"

section \<open>Scenarios\<close>

text \<open>
  Concrete interpreters, configurations and upstream services, on which the handlers are
  run below. \<open>entries\<close> reads the elements of a reply that is a JSON array.
\<close>

definition plain_msg :: "py_error \<Rightarrow> string" where
  "plain_msg e =
     (case e of
        AttributeError \<Rightarrow> ''AttributeError''
      | TypeError \<Rightarrow> ''TypeError''
      | KeyError \<Rightarrow> ''KeyError''
      | IndexError \<Rightarrow> ''IndexError''
      | LibraryError m \<Rightarrow> m)"

definition test_config :: config where
  "test_config =
     \<lparr>OPENAI_API_KEY = ''sk-test'', WEATHER_API_KEY = ''wkey'', OPENTRIPMAP_API_KEY = ''okey''\<rparr>"

fun entries :: "json \<Rightarrow> json list" where
  "entries (JArr xs) = xs"
| "entries _ = []"

text \<open>Nothing answers.\<close>

definition offline :: upstream where
  "offline =
     \<lparr>chat_create = (\<lambda>model msgs temp. Inl (LibraryError ''Connection error.'')),
      requests_get = (\<lambda>url hdrs. Inl (LibraryError ''Connection refused''))\<rparr>"

text \<open>
  The model answers the itinerary request (temperature 0.7) with a plan and the city
  request (temperature 0) with \<open>city_answer\<close>; the geodata services are unreachable.
\<close>

definition planner :: "string \<Rightarrow> upstream" where
  "planner city_answer =
     \<lparr>chat_create = (\<lambda>model msgs temp.
        if temp = ''0.7'' then Inr [Some ''Day 1: - Morning: walk''] else Inr [Some city_answer]),
      requests_get = (\<lambda>url hdrs. Inl (LibraryError ''Connection refused''))\<rparr>"

text \<open>Every GET is answered with the status \<open>code\<close> and the JSON \<open>j\<close>.\<close>

definition answering :: "int \<Rightarrow> json \<Rightarrow> upstream" where
  "answering code j =
     \<lparr>chat_create = (\<lambda>model msgs temp. Inl (LibraryError ''Connection error.'')),
      requests_get = (\<lambda>url hdrs. Inr \<lparr>status_code = code, json_body = Inr j\<rparr>)\<rparr>"

definition paris_weather :: json where
  "paris_weather =
     JObj [(''weather'', JArr [JObj [(''id'', JInt 800), (''description'', JStr ''clear sky'')]]),
           (''main'', JObj [(''temp'', JInt 18), (''humidity'', JInt 40)]),
           (''name'', JStr ''Paris'')]"

definition nameless_weather :: json where
  "nameless_weather =
     JObj [(''weather'', JArr [JObj [(''description'', JStr ''mist'')]]),
           (''main'', JObj [(''temp'', JFloat ''7.5'')])]"

definition weather_without_conditions :: json where
  "weather_without_conditions = JObj [(''main'', JObj [(''temp'', JInt 18)]), (''name'', JStr ''Paris'')]"

definition city_not_found :: json where
  "city_not_found = JObj [(''cod'', JStr ''404''), (''message'', JStr ''city not found'')]"

definition paris_results :: json where
  "paris_results =
     JArr [JObj [(''lat'', JStr ''48.85''), (''lon'', JStr ''2.35''),
                 (''display_name'', JStr ''Paris, Ile-de-France, France'')],
           JObj [(''lat'', JStr ''33.66''), (''lon'', JStr ''-95.55''),
                 (''display_name'', JStr ''Paris, Texas, United States'')]]"

definition results_without_lat :: json where
  "results_without_lat =
     JArr [JObj [(''lon'', JStr ''2.35''), (''display_name'', JStr ''Paris, Ile-de-France, France'')]]"

definition results_without_display_name :: json where
  "results_without_display_name = JArr [JObj [(''lat'', JStr ''48.85''), (''lon'', JStr ''2.35'')]]"

text \<open>
  The geocoder (called with the User-Agent header) knows Paris; the points-of-interest
  service answers \<open>places_res\<close>.
\<close>

definition paris_with :: "json \<Rightarrow> upstream" where
  "paris_with places_res =
     \<lparr>chat_create = (\<lambda>model msgs temp. Inl (LibraryError ''Connection error.'')),
      requests_get = (\<lambda>url hdrs.
        if hdrs = travel_buddy_headers
        then Inr \<lparr>status_code = 200, json_body = Inr paris_results\<rparr>
        else Inr \<lparr>status_code = 200, json_body = Inr places_res\<rparr>)\<rparr>"

definition place_at :: "(string \<times> json) list \<Rightarrow> string \<Rightarrow> string \<Rightarrow> json" where
  "place_at props lon lat =
     JObj [(''type'', JStr ''Feature''),
           (''geometry'', JObj [(''type'', JStr ''Point''), (''coordinates'', JArr [JFloat lon, JFloat lat])]),
           (''properties'', JObj props)]"


definition three_places :: json where
  "three_places =
     JObj [(''features'',
            JArr [place_at [(''name'', JStr ''Ritz'')] ''2.32'' ''48.86'',
                  place_at [(''name'', JStr [])] ''2.33'' ''48.87'',
                  place_at [(''name'', JStr ''Lutetia''), (''rate'', JInt 3)] ''2.34'' ''48.85''])]"

definition place_without_name :: json where
  "place_without_name =
     JObj [(''features'', JArr [place_at [(''rate'', JInt 1)] ''2.3'' ''48.8''])]"

section \<open>Properties of the chat endpoint\<close>

lemmas run_defs = catch_500_def bindE_def jsonify_def do_chat_def do_get_def error_body_def
  str_exc_def args_get_def

lemmas chat_defs = chat_def chat_try_def is_greeting_def first_content_def extract_city_def
  fallback_city_def

lemmas string_defs = py_lower_def py_lower_char_def py_strip_def py_isspace_def char_of_eq_iff

text \<open>
  Claim C1, as the code has it. When the body of a request to /chat is an object whose
  message is a string that, lowercased, is exactly "hi", "hello" or "hey", the handler
  returns status 200 with the fixed greeting as reply and a null city, and the log of
  outbound calls is unchanged: no call is issued. The message is lowercased only; it is
  not trimmed.
\<close>

theorem chat_greeting:
  assumes "request_json = Inr (JObj kvs)"
    and "map_of kvs ''message'' = Some (JStr s)"
    and "py_lower s \<in> set [''hi'', ''hello'', ''hey'']"
  shows "chat builtin_msg up request_json log =
           (\<lparr>status = 200,
             body = JObj [(''reply'', JStr ''Hello! I can help you plan trips. Where would you like to go?''),
                          (''city'', JNull)]\<rparr>, log)"
proof -
  from assms(3) have "s \<noteq> []"
    by (auto simp: py_lower_def)
  with assms show ?thesis
    by (simp add: chat_defs run_defs greeting_reply_def)
qed

theorem chat_greeting_witness:
  "py_lower ''HEY'' \<in> set [''hi'', ''hello'', ''hey''] \<and>
   chat plain_msg offline (Inr (JObj [(''message'', JStr ''HEY'')])) [] =
     (\<lparr>status = 200,
       body = JObj [(''reply'', JStr ''Hello! I can help you plan trips. Where would you like to go?''),
                    (''city'', JNull)]\<rparr>, [])"
proof -
  have h: "py_lower ''HEY'' \<in> set [''hi'', ''hello'', ''hey'']"
    by (simp add: string_defs)
  have m: "map_of [(''message'', JStr ''HEY'')] ''message'' = Some (JStr ''HEY'')"
    by simp
  from chat_greeting [OF refl m h, of plain_msg offline "[]"] h show ?thesis
    by simp
qed

text \<open>
  Claim C1 as stated fails: the message " hi" is "hi" once trimmed and lowercased, yet
  the handler does not answer with the greeting. It sends the message to the model
  twice (the itinerary and the city) and returns the model's plan.
\<close>

theorem chat_greeting_untrimmed_counterexample:
  "py_strip (py_lower '' hi'') \<in> set [''hi'', ''hello'', ''hey''] \<and>
   body (fst (chat plain_msg (planner ''Paris'') (Inr (JObj [(''message'', JStr '' hi'')])) [])) =
     JObj [(''reply'', JStr ''Day 1: - Morning: walk''), (''city'', JStr ''Paris'')] \<and>
   length (snd (chat plain_msg (planner ''Paris'') (Inr (JObj [(''message'', JStr '' hi'')])) [])) = 2"
  by (simp add: chat_defs run_defs planner_def string_defs Let_def)

section \<open>Properties of the weather endpoint\<close>

lemma weather_with_city:
  "args_get args ''city'' = Some city \<Longrightarrow> city \<noteq> [] \<Longrightarrow>
   weather builtin_msg cfg up args log = catch_500 builtin_msg (weather_try cfg up city log)"
  by (simp add: weather_def)

lemma weather_try_not_found:
  assumes "requests_get up (weather_url cfg city) [] = Inr res"
    and "json_body res = Inr data"
    and "status_code res \<noteq> 200 \<or> py_contains data ''main'' = Inr False"
  shows "weather_try cfg up city log =
           (Inr \<lparr>status = 404, body = JObj [(''error'', JStr ''Weather not found'')]\<rparr>,
            log @ [HttpGet (weather_url cfg city) []])"
  using assms by (auto simp: weather_try_def run_defs)

lemma weather_try_found:
  assumes "requests_get up (weather_url cfg city) [] = Inr res"
    and "json_body res = Inr (JObj kvs)"
    and "status_code res = 200"
    and "map_of kvs ''main'' = Some (JObj m)"
    and "map_of m ''temp'' = Some t"
    and "map_of kvs ''weather'' = Some (JArr (JObj w # ws))"
    and "map_of w ''description'' = Some d"
  shows "weather_try cfg up city log =
           (Inr \<lparr>status = 200,
                 body = JObj [(''temperature'', t), (''condition'', d),
                              (''city'', case map_of kvs ''name'' of Some n \<Rightarrow> n | None \<Rightarrow> JStr city)]\<rparr>,
            log @ [HttpGet (weather_url cfg city) []])"
  using assms by (simp add: weather_try_def run_defs)

text \<open>
  Claim C9. When the city query parameter of a /weather request is absent, the handler
  returns status 400 with the error "City is required", and the log of outbound calls
  is unchanged: it answers before any outbound call.
\<close>

theorem weather_city_required:
  assumes "args_get args ''city'' = None"
  shows "weather builtin_msg cfg up args log =
           (\<lparr>status = 400, body = JObj [(''error'', JStr ''City is required'')]\<rparr>, log)"
  using assms by (simp add: weather_def jsonify_def error_body_def)

theorem weather_city_required_witness:
  "args_get [(''units'', ''metric'')] ''city'' = None \<and>
   weather plain_msg test_config offline [(''units'', ''metric'')] [] =
     (\<lparr>status = 400, body = JObj [(''error'', JStr ''City is required'')]\<rparr>, [])"
proof -
  have h: "args_get [(''units'', ''metric'')] ''city'' = None"
    by (simp add: args_get_def)
  from weather_city_required [OF h, of plain_msg test_config offline "[]"] h show ?thesis
    by simp
qed

lemma get_answering: "requests_get (answering code j) url hdrs = Inr \<lparr>status_code = code, json_body = Inr j\<rparr>"
  by (simp add: answering_def)

lemma weather_try_raises:
  assumes "requests_get up (weather_url cfg city) [] = Inr res"
    and "json_body res = Inr data"
    and "status_code res = 200"
    and "py_contains data ''main'' = Inl e \<or>
         py_contains data ''main'' = Inr True \<and>
         (bindE (getitem_str data ''main'') (\<lambda>m. getitem_str m ''temp'') = Inl e \<or>
          bindE (bindE (getitem_str data ''weather'') (\<lambda>w. getitem_idx w 0))
            (\<lambda>w0. getitem_str w0 ''description'') = Inl e)"
  shows "\<exists>e'. weather_try cfg up city log = (Inl e', log @ [HttpGet (weather_url cfg city) []])"
  using assms by (auto simp: weather_try_def do_get_def bindE_def split: sum.splits)

text \<open>
  Claim C2, as the code has it. For a /weather request with a city, when the upstream
  call returns a response whose body decodes as JSON:
  \<^item> if the status is not 200, or the test \<^verbatim>\<open>"main" not in data\<close> of line 128 is
    true (the JSON is an object without the key, a list without the element or a string
    without the substring "main"), the handler returns status 404 with the error
    "Weather not found";
  \<^item> if the status is 200 and the JSON is an object carrying main.temp and
    weather[0].description, it returns status 200 with that temperature, that
    description and the name of the payload (the city of the request when the payload
    has no name);
  \<^item> if the status is 200 and that test raises (the JSON is null, a number or a
    boolean), or "main" is there but main.temp or weather[0].description cannot be
    read, it returns status 500.
\<close>

theorem weather_found_or_not:
  assumes "args_get args ''city'' = Some city"
    and "city \<noteq> []"
    and "requests_get up (weather_url cfg city) [] = Inr res"
    and "json_body res = Inr data"
  shows "(status_code res \<noteq> 200 \<or> py_contains data ''main'' = Inr False \<longrightarrow>
            fst (weather builtin_msg cfg up args log) =
              \<lparr>status = 404, body = JObj [(''error'', JStr ''Weather not found'')]\<rparr>) \<and>
         (status_code res = 200 \<and> data = JObj kvs \<and>
          map_of kvs ''main'' = Some (JObj m) \<and> map_of m ''temp'' = Some t \<and>
          map_of kvs ''weather'' = Some (JArr (JObj w # ws)) \<and> map_of w ''description'' = Some d \<longrightarrow>
            fst (weather builtin_msg cfg up args log) =
              \<lparr>status = 200,
                body = JObj [(''temperature'', t), (''condition'', d),
                             (''city'', case map_of kvs ''name'' of Some n \<Rightarrow> n | None \<Rightarrow> JStr city)]\<rparr>) \<and>
         (status_code res = 200 \<and>
          (py_contains data ''main'' = Inl e \<or>
           py_contains data ''main'' = Inr True \<and>
           (bindE (getitem_str data ''main'') (\<lambda>m. getitem_str m ''temp'') = Inl e \<or>
            bindE (bindE (getitem_str data ''weather'') (\<lambda>w. getitem_idx w 0))
              (\<lambda>w0. getitem_str w0 ''description'') = Inl e)) \<longrightarrow>
            status (fst (weather builtin_msg cfg up args log)) = 500)"
proof (intro conjI impI)
  assume "status_code res \<noteq> 200 \<or> py_contains data ''main'' = Inr False"
  from weather_try_not_found [OF assms(3) assms(4) this]
  show "fst (weather builtin_msg cfg up args log) =
          \<lparr>status = 404, body = JObj [(''error'', JStr ''Weather not found'')]\<rparr>"
    by (simp add: weather_with_city [OF assms(1) assms(2)] catch_500_def)
next
  assume a: "status_code res = 200 \<and> data = JObj kvs \<and>
          map_of kvs ''main'' = Some (JObj m) \<and> map_of m ''temp'' = Some t \<and>
          map_of kvs ''weather'' = Some (JArr (JObj w # ws)) \<and> map_of w ''description'' = Some d"
  with assms(4) have j: "json_body res = Inr (JObj kvs)"
    by simp
  from a weather_try_found [OF assms(3) j, where m = m and t = t and w = w and ws = ws and d = d
      and log = log]
  show "fst (weather builtin_msg cfg up args log) =
          \<lparr>status = 200,
            body = JObj [(''temperature'', t), (''condition'', d),
                         (''city'', case map_of kvs ''name'' of Some n \<Rightarrow> n | None \<Rightarrow> JStr city)]\<rparr>"
    by (simp add: weather_with_city [OF assms(1) assms(2)] catch_500_def)
next
  assume a: "status_code res = 200 \<and>
          (py_contains data ''main'' = Inl e \<or>
           py_contains data ''main'' = Inr True \<and>
           (bindE (getitem_str data ''main'') (\<lambda>m. getitem_str m ''temp'') = Inl e \<or>
            bindE (bindE (getitem_str data ''weather'') (\<lambda>w. getitem_idx w 0))
              (\<lambda>w0. getitem_str w0 ''description'') = Inl e))"
  then have s: "status_code res = 200"
    by simp
  from a weather_try_raises [OF assms(3) assms(4) s, of e log] obtain e'
    where "weather_try cfg up city log = (Inl e', log @ [HttpGet (weather_url cfg city) []])"
    by blast
  then show "status (fst (weather builtin_msg cfg up args log)) = 500"
    by (simp add: weather_with_city [OF assms(1) assms(2)] catch_500_def jsonify_def)
qed

theorem weather_found_or_not_witness:
  "args_get [(''city'', ''Paris'')] ''city'' = Some ''Paris'' \<and>
   fst (weather plain_msg test_config (answering 200 paris_weather) [(''city'', ''Paris'')] []) =
     \<lparr>status = 200,
       body = JObj [(''temperature'', JInt 18), (''condition'', JStr ''clear sky''),
                    (''city'', JStr ''Paris'')]\<rparr> \<and>
   args_get [(''city'', ''Atlantis'')] ''city'' = Some ''Atlantis'' \<and>
   py_contains city_not_found ''main'' = Inr False \<and>
   fst (weather plain_msg test_config (answering 404 city_not_found) [(''city'', ''Atlantis'')] []) =
     \<lparr>status = 404, body = JObj [(''error'', JStr ''Weather not found'')]\<rparr> \<and>
   py_contains JNull ''main'' = Inl TypeError \<and>
   status (fst (weather plain_msg test_config (answering 200 JNull) [(''city'', ''Paris'')] [])) = 500"
proof -
  have p: "args_get [(''city'', ''Paris'')] ''city'' = Some ''Paris''"
    and a: "args_get [(''city'', ''Atlantis'')] ''city'' = Some ''Atlantis''"
    by (simp_all add: args_get_def)
  have ne: "''Paris'' \<noteq> []" "''Atlantis'' \<noteq> []"
    by simp_all
  have jb: "json_body \<lparr>status_code = c, json_body = Inr j\<rparr> = Inr j" for c :: int and j :: json
    by simp
  have nf: "py_contains city_not_found ''main'' = Inr False"
    by (simp add: city_not_found_def)
  have te: "py_contains JNull ''main'' = Inl TypeError"
    by simp
  note found = weather_found_or_not [OF p ne(1) get_answering jb,
      where kvs = "[(''weather'', JArr [JObj [(''id'', JInt 800), (''description'', JStr ''clear sky'')]]),
           (''main'', JObj [(''temp'', JInt 18), (''humidity'', JInt 40)]),
           (''name'', JStr ''Paris'')]"
        and m = "[(''temp'', JInt 18), (''humidity'', JInt 40)]" and t = "JInt 18"
        and w = "[(''id'', JInt 800), (''description'', JStr ''clear sky'')]" and ws = "[]"
        and d = "JStr ''clear sky''" and builtin_msg = plain_msg
        and log = "[]", THEN conjunct2, THEN conjunct1]
  note missing = weather_found_or_not [OF a ne(2) get_answering jb,
      where builtin_msg = plain_msg and log = "[]", THEN conjunct1]
  note raised = weather_found_or_not [OF p ne(1) get_answering jb,
      where e = TypeError and builtin_msg = plain_msg and log = "[]", THEN conjunct2, THEN conjunct2]
  from found missing raised p a nf te show ?thesis
    by (simp add: paris_weather_def)
qed

text \<open>
  Claim C2 as stated fails: a 200 response that has "main" but lacks "weather", one of
  the expected fields, is answered neither by the 404 "Weather not found" nor by a 200.
  The subscript of line 133 raises KeyError and the handler returns a 500.
\<close>

theorem weather_incomplete_counterexample:
  "args_get [(''city'', ''Paris'')] ''city'' = Some ''Paris'' \<and>
   requests_get (answering 200 weather_without_conditions) (weather_url test_config ''Paris'') [] =
     Inr \<lparr>status_code = 200, json_body = Inr weather_without_conditions\<rparr> \<and>
   getitem_str weather_without_conditions ''weather'' = Inl KeyError \<and>
   fst (weather plain_msg test_config (answering 200 weather_without_conditions) [(''city'', ''Paris'')] []) =
     \<lparr>status = 500, body = JObj [(''error'', JStr ''KeyError'')]\<rparr>"
  by (simp add: weather_def weather_try_def run_defs answering_def weather_without_conditions_def plain_msg_def)

text \<open>
  Claim C10. On a successful /weather response (upstream status 200, with main.temp and
  weather[0].description), when the upstream payload has no "name" field the returned
  "city" is the city string of the request.
\<close>

theorem weather_city_falls_back:
  assumes "args_get args ''city'' = Some city"
    and "city \<noteq> []"
    and "requests_get up (weather_url cfg city) [] = Inr res"
    and "status_code res = 200"
    and "json_body res = Inr (JObj kvs)"
    and "map_of kvs ''main'' = Some (JObj m)"
    and "map_of m ''temp'' = Some t"
    and "map_of kvs ''weather'' = Some (JArr (JObj w # ws))"
    and "map_of w ''description'' = Some d"
    and "map_of kvs ''name'' = None"
  shows "fst (weather builtin_msg cfg up args log) =
           \<lparr>status = 200,
             body = JObj [(''temperature'', t), (''condition'', d), (''city'', JStr city)]\<rparr>"
  using weather_try_found [OF assms(3) assms(5) assms(4) assms(6-9), where log = log] assms(10)
  by (simp add: weather_with_city [OF assms(1) assms(2)] catch_500_def)

theorem weather_city_falls_back_witness:
  "args_get [(''city'', ''lyon'')] ''city'' = Some ''lyon'' \<and>
   dict_get nameless_weather ''name'' JNull = Inr JNull \<and>
   fst (weather plain_msg test_config (answering 200 nameless_weather) [(''city'', ''lyon'')] []) =
     \<lparr>status = 200,
       body = JObj [(''temperature'', JFloat ''7.5''), (''condition'', JStr ''mist''),
                    (''city'', JStr ''lyon'')]\<rparr>"
proof -
  have p: "args_get [(''city'', ''lyon'')] ''city'' = Some ''lyon''"
    by (simp add: args_get_def)
  have ne: "''lyon'' \<noteq> []"
    by simp
  have jb: "json_body \<lparr>status_code = 200, json_body = Inr nameless_weather\<rparr> =
      Inr (JObj [(''weather'', JArr [JObj [(''description'', JStr ''mist'')]]),
                 (''main'', JObj [(''temp'', JFloat ''7.5'')])])"
    by (simp add: nameless_weather_def)
  have st: "status_code \<lparr>status_code = 200, json_body = Inr nameless_weather\<rparr> = 200"
    by simp
  from weather_city_falls_back [OF p ne get_answering st jb,
      where m = "[(''temp'', JFloat ''7.5'')]" and t = "JFloat ''7.5''"
        and w = "[(''description'', JStr ''mist'')]" and ws = "[]" and d = "JStr ''mist''"
        and builtin_msg = plain_msg and log = "[]"] p
  show ?thesis
    by (simp add: nameless_weather_def)
qed

section \<open>Properties of the geocode endpoint\<close>

lemma geocode_with_place:
  "args_get args ''place'' = Some place \<Longrightarrow> place \<noteq> [] \<Longrightarrow>
   geocode builtin_msg up args log = catch_500 builtin_msg (geocode_try up place log)"
  by (simp add: geocode_def)

text \<open>
  Claim C7, as the code has it. For a /geocode request with a place, when the geocoding
  call returns a JSON list:
  \<^item> if the list is empty, the handler returns status 404 with a body that has an
    "error" field and no "name" field;
  \<^item> if the list is not empty and its first result is an object carrying lat and lon,
    the handler returns status 200 with that lat and lon and, as name, the first
    result's display name (the place of the request when the result has none);
  \<^item> if the list is not empty and lat or lon cannot be read from its first result, the
    handler returns status 500.
\<close>

theorem geocode_first_or_404:
  assumes "args_get args ''place'' = Some place"
    and "place \<noteq> []"
    and "requests_get up (nominatim_url place) travel_buddy_headers = Inr res"
    and "json_body res = Inr (JArr results)"
  shows "(results = [] \<longrightarrow>
            status (fst (geocode builtin_msg up args log)) = 404 \<and>
            body (fst (geocode builtin_msg up args log)) = JObj [(''error'', JStr ''No results found'')] \<and>
            py_contains (body (fst (geocode builtin_msg up args log))) ''error'' = Inr True \<and>
            py_contains (body (fst (geocode builtin_msg up args log))) ''name'' = Inr False) \<and>
         (results = JObj kvs # others \<and>
          map_of kvs ''lat'' = Some lat \<and> map_of kvs ''lon'' = Some lon \<longrightarrow>
            fst (geocode builtin_msg up args log) =
              \<lparr>status = 200,
                body = JObj [(''name'', case map_of kvs ''display_name'' of
                                          Some d \<Rightarrow> d | None \<Rightarrow> JStr place),
                             (''lat'', lat), (''lon'', lon)]\<rparr>) \<and>
         (results = r # others \<and>
          (getitem_str r ''lat'' = Inl e \<or> getitem_str r ''lon'' = Inl e) \<longrightarrow>
            status (fst (geocode builtin_msg up args log)) = 500)"
  using assms(3,4)
  by (auto simp: geocode_with_place [OF assms(1) assms(2)] geocode_try_def run_defs
      split: sum.splits)

theorem geocode_first_or_404_witness:
  "args_get [(''place'', ''Paris'')] ''place'' = Some ''Paris'' \<and>
   fst (geocode plain_msg (answering 200 paris_results) [(''place'', ''Paris'')] []) =
     \<lparr>status = 200,
       body = JObj [(''name'', JStr ''Paris, Ile-de-France, France''), (''lat'', JStr ''48.85''),
                    (''lon'', JStr ''2.35'')]\<rparr> \<and>
   fst (geocode plain_msg (answering 200 results_without_display_name) [(''place'', ''Paris'')] []) =
     \<lparr>status = 200,
       body = JObj [(''name'', JStr ''Paris''), (''lat'', JStr ''48.85''), (''lon'', JStr ''2.35'')]\<rparr> \<and>
   args_get [(''place'', ''Atlantis'')] ''place'' = Some ''Atlantis'' \<and>
   fst (geocode plain_msg (answering 200 (JArr [])) [(''place'', ''Atlantis'')] []) =
     \<lparr>status = 404, body = JObj [(''error'', JStr ''No results found'')]\<rparr> \<and>
   getitem_str (JStr ''Paris'') ''lat'' = Inl TypeError \<and>
   status (fst (geocode plain_msg (answering 200 (JArr [JStr ''Paris''])) [(''place'', ''Paris'')] [])) = 500"
proof -
  have p: "args_get [(''place'', ''Paris'')] ''place'' = Some ''Paris''"
    and a: "args_get [(''place'', ''Atlantis'')] ''place'' = Some ''Atlantis''"
    by (simp_all add: args_get_def)
  have ne: "''Paris'' \<noteq> []" "''Atlantis'' \<noteq> []"
    by simp_all
  have jp: "json_body \<lparr>status_code = 200, json_body = Inr paris_results\<rparr> =
      Inr (JArr [JObj [(''lat'', JStr ''48.85''), (''lon'', JStr ''2.35''),
                 (''display_name'', JStr ''Paris, Ile-de-France, France'')],
           JObj [(''lat'', JStr ''33.66''), (''lon'', JStr ''-95.55''),
                 (''display_name'', JStr ''Paris, Texas, United States'')]])"
    by (simp add: paris_results_def)
  have jd: "json_body \<lparr>status_code = 200, json_body = Inr results_without_display_name\<rparr> =
      Inr (JArr [JObj [(''lat'', JStr ''48.85''), (''lon'', JStr ''2.35'')]])"
    by (simp add: results_without_display_name_def)
  have ja: "json_body \<lparr>status_code = 200, json_body = Inr (JArr xs)\<rparr> = Inr (JArr xs)" for xs
    by simp
  have te: "getitem_str (JStr ''Paris'') ''lat'' = Inl TypeError"
    by simp
  note found = geocode_first_or_404 [OF p ne(1) get_answering jp,
      where kvs = "[(''lat'', JStr ''48.85''), (''lon'', JStr ''2.35''),
                    (''display_name'', JStr ''Paris, Ile-de-France, France'')]"
        and others = "[JObj [(''lat'', JStr ''33.66''), (''lon'', JStr ''-95.55''),
                 (''display_name'', JStr ''Paris, Texas, United States'')]]"
        and lat = "JStr ''48.85''"
        and lon = "JStr ''2.35''" and builtin_msg = plain_msg and log = "[]",
      THEN conjunct2, THEN conjunct1]
  note unnamed = geocode_first_or_404 [OF p ne(1) get_answering jd,
      where kvs = "[(''lat'', JStr ''48.85''), (''lon'', JStr ''2.35'')]" and others = "[]"
        and lat = "JStr ''48.85''"
        and lon = "JStr ''2.35''" and builtin_msg = plain_msg and log = "[]",
      THEN conjunct2, THEN conjunct1]
  note none = geocode_first_or_404 [OF a ne(2) get_answering ja,
      where builtin_msg = plain_msg and log = "[]", THEN conjunct1]
  note raised = geocode_first_or_404 [OF p ne(1) get_answering ja,
      where r = "JStr ''Paris''" and others = "[]" and e = TypeError
        and builtin_msg = plain_msg and log = "[]", THEN conjunct2, THEN conjunct2]
  have eq: "\<And>r :: response. status r = 404 \<and> body r = b \<Longrightarrow> r = \<lparr>status = 404, body = b\<rparr>" for b
    by auto
  from found unnamed none raised p a te show ?thesis
    by (auto intro: eq)
qed

text \<open>
  Claim C7 as stated fails: a result list that is not empty, but whose first result has
  no lat, is not answered with a 200. The subscript of line 208 raises KeyError and the
  handler returns a 500.
\<close>

theorem geocode_without_lat_counterexample:
  "getitem_idx results_without_lat 0 =
     Inr (JObj [(''lon'', JStr ''2.35''), (''display_name'', JStr ''Paris, Ile-de-France, France'')]) \<and>
   fst (geocode plain_msg (answering 200 results_without_lat) [(''place'', ''Paris'')] []) =
     \<lparr>status = 500, body = JObj [(''error'', JStr ''KeyError'')]\<rparr>"
  by (simp add: geocode_def geocode_try_def run_defs answering_def results_without_lat_def
      plain_msg_def)

section \<open>Properties of the hotels endpoint\<close>

lemmas hotels_defs = hotels_def hotels_try_def hotels_of_def hotel_entry_def




lemma hotels_with_places:
  assumes "args_get args ''city'' = Some city"
    and "city \<noteq> []"
    and "requests_get up (nominatim_url city) travel_buddy_headers = Inr res1"
    and "json_body res1 = Inr nom_res"
    and "truthy nom_res"
    and "getitem_idx nom_res 0 = Inr first"
    and "getitem_str first ''lat'' = Inr lat"
    and "getitem_str first ''lon'' = Inr lon"
    and "requests_get up (places_url cfg lat lon) [] = Inr res2"
    and "json_body res2 = Inr places_res"
  shows "hotels builtin_msg cfg up args log =
           catch_500 builtin_msg
             (hotels_of city places_res,
              log @ [HttpGet (nominatim_url city) travel_buddy_headers,
                     HttpGet (places_url cfg lat lon) []])"
  using assms by (simp add: hotels_def hotels_try_def bindE_def do_get_def)


lemma hotels_of_cases:
  "(\<exists>e. hotels_of city places_res = Inl e) \<or>
   (\<exists>features places hs.
      dict_get places_res ''features'' (JArr []) = Inr features \<and> py_iter features = Inr places \<and>
      hotels_loop city places [] = Inr hs \<and>
      hotels_of city places_res = Inr \<lparr>status = 200, body = JArr hs\<rparr>)"
  by (auto simp: hotels_of_def bindE_def jsonify_def split: sum.splits)

lemma catch_500_Inr: "catch_500 builtin_msg (Inr x, l) = (x, l)"
  by (simp add: catch_500_def)

lemma catch_500_Inl: "status (fst (catch_500 builtin_msg (Inl e, l))) = 500"
  by (simp add: catch_500_def jsonify_def)




lemma hotel_entry_None:
  assumes "hotel_entry city place = Inr None"
  shows "\<exists>props n. getitem_str place ''properties'' = Inr props \<and>
           dict_get props ''name'' (JStr ''Unnamed'') = Inr n \<and> \<not> truthy n"
  using assms by (auto simp: hotel_entry_def bindE_def Let_def split: sum.splits if_splits)

lemma hotel_entry_Some:
  assumes "hotel_entry city place = Inr (Some h)"
  shows "\<exists>props g coords n c0 c1.
           getitem_str place ''properties'' = Inr props \<and>
           dict_get props ''name'' (JStr ''Unnamed'') = Inr n \<and> truthy n \<and>
           getitem_str place ''geometry'' = Inr g \<and>
           getitem_str g ''coordinates'' = Inr coords \<and>
           getitem_idx coords 0 = Inr c0 \<and> getitem_idx coords 1 = Inr c1 \<and>
           h = JObj [(''name'', n), (''lat'', c1), (''lon'', c0),
                     (''map_link'', JStr (''https://www.openstreetmap.org/?mlat='' @ py_str c1
                        @ ''&mlon='' @ py_str c0 @ ''#map=18/'' @ py_str c1 @ ''/'' @ py_str c0)),
                     (''booking_link'', JStr (''https://www.booking.com/searchresults.html?ss=''
                        @ py_str n @ ''+'' @ city)),
                     (''google_maps_link'', JStr (''https://www.google.com/maps/search/''
                        @ py_str n @ ''+'' @ city))]"
  using assms by (auto simp: hotel_entry_def bindE_def Let_def split: sum.splits if_splits)

lemma hotels_loop_entries:
  assumes "hotels_loop city places acc = Inr hs"
  shows "\<exists>new. hs = acc @ new \<and>
           list_all2
             (\<lambda>place h. \<exists>props g coords n c0 c1.
                getitem_str place ''properties'' = Inr props \<and>
                dict_get props ''name'' (JStr ''Unnamed'') = Inr n \<and>
                getitem_str place ''geometry'' = Inr g \<and>
                getitem_str g ''coordinates'' = Inr coords \<and>
                getitem_idx coords 0 = Inr c0 \<and> getitem_idx coords 1 = Inr c1 \<and>
                h = JObj [(''name'', n), (''lat'', c1), (''lon'', c0),
                          (''map_link'', JStr (''https://www.openstreetmap.org/?mlat='' @ py_str c1
                             @ ''&mlon='' @ py_str c0 @ ''#map=18/'' @ py_str c1 @ ''/'' @ py_str c0)),
                          (''booking_link'', JStr (''https://www.booking.com/searchresults.html?ss=''
                             @ py_str n @ ''+'' @ city)),
                          (''google_maps_link'', JStr (''https://www.google.com/maps/search/''
                             @ py_str n @ ''+'' @ city))])
             (filter (\<lambda>place. case bindE (getitem_str place ''properties'')
                                      (\<lambda>props. dict_get props ''name'' (JStr ''Unnamed'')) of
                                 Inr n \<Rightarrow> truthy n | Inl e \<Rightarrow> False) places)
             new"
  (is "\<exists>new. hs = acc @ new \<and> list_all2 ?R (filter ?P places) new")
  using assms
proof (induction places arbitrary: acc)
  case Nil
  then show ?case by simp
next
  case (Cons place places)
  show ?case
  proof (cases "hotel_entry city place")
    case (Inl e)
    with Cons.prems show ?thesis by simp
  next
    case (Inr entry)
    show ?thesis
    proof (cases entry)
      case None
      with Inr Cons.prems have "hotels_loop city places acc = Inr hs" by simp
      from Cons.IH [OF this] obtain new where new: "hs = acc @ new" "list_all2 ?R (filter ?P places) new"
        by blast
      from None Inr hotel_entry_None [of city place] have "\<not> ?P place"
        by (auto simp: bindE_def)
      with new show ?thesis by simp
    next
      case (Some h)
      with Inr Cons.prems have "hotels_loop city places (acc @ [h]) = Inr hs" by simp
      from Cons.IH [OF this] obtain new where new: "hs = (acc @ [h]) @ new" "list_all2 ?R (filter ?P places) new"
        by blast
      from Some Inr have e: "hotel_entry city place = Inr (Some h)" by simp
      from hotel_entry_Some [OF e] have p: "?P place"
        by (auto simp: bindE_def)
      from hotel_entry_Some [OF e] have r: "?R place h"
        by blast
      from new p r have "hs = acc @ (h # new) \<and> list_all2 ?R (filter ?P (place # places)) (h # new)"
        by simp
      then show ?thesis by blast
    qed
  qed
qed

text \<open>
  Claim C5, as the code has it. The name of a place is \<^verbatim>\<open>props.get("name", "Unnamed")\<close>:
  a place that has no name property is named "Unnamed". Whenever the handler answers
  200 after the points-of-interest step, its list holds, in upstream order, one entry
  exactly for each returned place whose name, so read, is true (not empty); the entry's
  map_link is built from the place's coordinates, its booking_link and
  google_maps_link from that name and the request's city. A place whose name is empty,
  null or otherwise false gives no entry.
\<close>

theorem hotels_entries:
  assumes "args_get args ''city'' = Some city"
    and "city \<noteq> []"
    and "requests_get up (nominatim_url city) travel_buddy_headers = Inr res1"
    and "json_body res1 = Inr nom_res"
    and "truthy nom_res"
    and "getitem_idx nom_res 0 = Inr first"
    and "getitem_str first ''lat'' = Inr lat"
    and "getitem_str first ''lon'' = Inr lon"
    and "requests_get up (places_url cfg lat lon) [] = Inr res2"
    and "json_body res2 = Inr places_res"
    and "dict_get places_res ''features'' (JArr []) = Inr features"
    and "py_iter features = Inr places"
    and "status (fst (hotels builtin_msg cfg up args log)) = 200"
  shows "\<exists>hs. body (fst (hotels builtin_msg cfg up args log)) = JArr hs \<and>
           list_all2
             (\<lambda>place h. \<exists>props g coords n c0 c1.
                 getitem_str place ''properties'' = Inr props \<and>
                 dict_get props ''name'' (JStr ''Unnamed'') = Inr n \<and>
                 getitem_str place ''geometry'' = Inr g \<and>
                 getitem_str g ''coordinates'' = Inr coords \<and>
                 getitem_idx coords 0 = Inr c0 \<and> getitem_idx coords 1 = Inr c1 \<and>
                 h = JObj [(''name'', n), (''lat'', c1), (''lon'', c0),
                           (''map_link'', JStr (''https://www.openstreetmap.org/?mlat='' @ py_str c1
                              @ ''&mlon='' @ py_str c0 @ ''#map=18/'' @ py_str c1 @ ''/'' @ py_str c0)),
                           (''booking_link'', JStr (''https://www.booking.com/searchresults.html?ss=''
                              @ py_str n @ ''+'' @ city)),
                           (''google_maps_link'', JStr (''https://www.google.com/maps/search/''
                              @ py_str n @ ''+'' @ city))])
             (filter (\<lambda>place. case bindE (getitem_str place ''properties'')
                                       (\<lambda>props. dict_get props ''name'' (JStr ''Unnamed'')) of
                                  Inr n \<Rightarrow> truthy n | Inl e \<Rightarrow> False) places)
             hs"
proof -
  note run = hotels_with_places [OF assms(1-10), of builtin_msg log]
  from hotels_of_cases [of city places_res] show ?thesis
  proof (elim disjE exE conjE)
    fix e assume "hotels_of city places_res = Inl e"
    with assms(13) show ?thesis
      by (simp add: run catch_500_Inl)
  next
    fix fs ps hs
    assume "dict_get places_res ''features'' (JArr []) = Inr fs" "py_iter fs = Inr ps"
      and loop: "hotels_loop city ps [] = Inr hs"
      and res: "hotels_of city places_res = Inr \<lparr>status = 200, body = JArr hs\<rparr>"
    with assms(11,12) have "ps = places" by simp
    with hotels_loop_entries [OF loop] res show ?thesis
      by (simp add: run catch_500_Inr)
  qed
qed

theorem hotels_entries_witness:
  "args_get [(''city'', ''Paris'')] ''city'' = Some ''Paris'' \<and>
   bindE (dict_get three_places ''features'' (JArr [])) py_iter =
     Inr [place_at [(''name'', JStr ''Ritz'')] ''2.32'' ''48.86'',
          place_at [(''name'', JStr [])] ''2.33'' ''48.87'',
          place_at [(''name'', JStr ''Lutetia''), (''rate'', JInt 3)] ''2.34'' ''48.85''] \<and>
   status (fst (hotels plain_msg test_config (paris_with three_places) [(''city'', ''Paris'')] [])) = 200 \<and>
   entries (body (fst (hotels plain_msg test_config (paris_with three_places) [(''city'', ''Paris'')] []))) =
     [JObj [(''name'', JStr ''Ritz''), (''lat'', JFloat ''48.86''), (''lon'', JFloat ''2.32''),
            (''map_link'', JStr ''https://www.openstreetmap.org/?mlat=48.86&mlon=2.32#map=18/48.86/2.32''),
            (''booking_link'', JStr ''https://www.booking.com/searchresults.html?ss=Ritz+Paris''),
            (''google_maps_link'', JStr ''https://www.google.com/maps/search/Ritz+Paris'')],
      JObj [(''name'', JStr ''Lutetia''), (''lat'', JFloat ''48.85''), (''lon'', JFloat ''2.34''),
            (''map_link'', JStr ''https://www.openstreetmap.org/?mlat=48.85&mlon=2.34#map=18/48.85/2.34''),
            (''booking_link'', JStr ''https://www.booking.com/searchresults.html?ss=Lutetia+Paris''),
            (''google_maps_link'', JStr ''https://www.google.com/maps/search/Lutetia+Paris'')]]"
proof -
  let ?places = "[place_at [(''name'', JStr ''Ritz'')] ''2.32'' ''48.86'',
          place_at [(''name'', JStr [])] ''2.33'' ''48.87'',
          place_at [(''name'', JStr ''Lutetia''), (''rate'', JInt 3)] ''2.34'' ''48.85'']"
  let ?first = "JObj [(''lat'', JStr ''48.85''), (''lon'', JStr ''2.35''),
                 (''display_name'', JStr ''Paris, Ile-de-France, France'')]"
  have a: "args_get [(''city'', ''Paris'')] ''city'' = Some ''Paris''"
    by (simp add: args_get_def)
  have ne: "''Paris'' \<noteq> []"
    by simp
  have g1: "requests_get (paris_with three_places) (nominatim_url ''Paris'') travel_buddy_headers =
      Inr \<lparr>status_code = 200, json_body = Inr paris_results\<rparr>"
    by (simp add: paris_with_def)
  have j1: "json_body \<lparr>status_code = 200, json_body = Inr paris_results\<rparr> = Inr paris_results"
    by simp
  have t: "truthy paris_results"
    by (simp add: paris_results_def)
  have f: "getitem_idx paris_results 0 = Inr ?first"
    by (simp add: paris_results_def)
  have la: "getitem_str ?first ''lat'' = Inr (JStr ''48.85'')"
    and lo: "getitem_str ?first ''lon'' = Inr (JStr ''2.35'')"
    by simp_all
  have g2: "requests_get (paris_with three_places)
      (places_url test_config (JStr ''48.85'') (JStr ''2.35'')) [] =
      Inr \<lparr>status_code = 200, json_body = Inr three_places\<rparr>"
    by (simp add: paris_with_def travel_buddy_headers_def)
  have j2: "json_body \<lparr>status_code = 200, json_body = Inr three_places\<rparr> = Inr three_places"
    by simp
  have fs: "dict_get three_places ''features'' (JArr []) = Inr (JArr ?places)"
    by (simp add: three_places_def)
  have it: "py_iter (JArr ?places) = Inr ?places"
    by simp
  have ok: "status (fst (hotels plain_msg test_config (paris_with three_places)
      [(''city'', ''Paris'')] [])) = 200"
    by (simp add: hotels_defs run_defs plain_msg_def test_config_def paris_with_def paris_results_def
        place_at_def travel_buddy_headers_def nominatim_url_def places_url_def py_str_def
        three_places_def)
  from hotels_entries [OF a ne g1 j1 t f la lo g2 j2 fs it ok]
  have "entries (body (fst (hotels plain_msg test_config (paris_with three_places) [(''city'', ''Paris'')] []))) =
     [JObj [(''name'', JStr ''Ritz''), (''lat'', JFloat ''48.86''), (''lon'', JFloat ''2.32''),
            (''map_link'', JStr ''https://www.openstreetmap.org/?mlat=48.86&mlon=2.32#map=18/48.86/2.32''),
            (''booking_link'', JStr ''https://www.booking.com/searchresults.html?ss=Ritz+Paris''),
            (''google_maps_link'', JStr ''https://www.google.com/maps/search/Ritz+Paris'')],
      JObj [(''name'', JStr ''Lutetia''), (''lat'', JFloat ''48.85''), (''lon'', JFloat ''2.34''),
            (''map_link'', JStr ''https://www.openstreetmap.org/?mlat=48.85&mlon=2.34#map=18/48.85/2.34''),
            (''booking_link'', JStr ''https://www.booking.com/searchresults.html?ss=Lutetia+Paris''),
            (''google_maps_link'', JStr ''https://www.google.com/maps/search/Lutetia+Paris'')]]"
    by (auto simp: place_at_def bindE_def list_all2_Cons1 py_str_def)
  with a fs ok show ?thesis
    by (simp add: bindE_def)
qed

text \<open>
  Claim C5 as stated fails: a returned place with no name at all does produce an
  entry, under the name "Unnamed".
\<close>

theorem hotels_unnamed_counterexample:
  "dict_get place_without_name ''features'' (JArr []) =
     Inr (JArr [place_at [(''rate'', JInt 1)] ''2.3'' ''48.8'']) \<and>
   getitem_str (place_at [(''rate'', JInt 1)] ''2.3'' ''48.8'') ''properties'' =
     Inr (JObj [(''rate'', JInt 1)]) \<and>
   py_contains (JObj [(''rate'', JInt 1)]) ''name'' = Inr False \<and>
   fst (hotels plain_msg test_config (paris_with place_without_name) [(''city'', ''Paris'')] []) =
     \<lparr>status = 200,
       body = JArr
         [JObj [(''name'', JStr ''Unnamed''), (''lat'', JFloat ''48.8''), (''lon'', JFloat ''2.3''),
                (''map_link'', JStr ''https://www.openstreetmap.org/?mlat=48.8&mlon=2.3#map=18/48.8/2.3''),
                (''booking_link'', JStr ''https://www.booking.com/searchresults.html?ss=Unnamed+Paris''),
                (''google_maps_link'', JStr ''https://www.google.com/maps/search/Unnamed+Paris'')]]\<rparr>"
  by (simp add: hotels_defs run_defs plain_msg_def test_config_def paris_with_def paris_results_def
      place_at_def travel_buddy_headers_def nominatim_url_def places_url_def py_str_def
      place_without_name_def)

section \<open>The city of a chat reply\<close>

text \<open>
  What the two best-effort steps of /chat do once the itinerary step has completed: the
  reply is a 200 with the model's plan whatever happens in them; a failed extraction
  gives a null city; the fallback sets the city to the leading comma-separated token of
  the first result's display name, and a fallback that raises leaves the city as the
  extraction left it.
\<close>

lemma fallback_city_log:
  "snd (fallback_city up u c log) = log @ [HttpGet (nominatim_url (py_str u)) travel_buddy_headers]"
  by (simp add: fallback_city_def do_get_def Let_def)

lemma extract_city_log:
  "snd (extract_city up u log) =
     log @ [ChatCompletion ''gpt-4o-mini'' [(''system'', JStr city_prompt), (''user'', u)] ''0'']"
  by (simp add: extract_city_def do_chat_def Let_def)

lemma py_split_first: "\<exists>ws. py_split sep s = takeWhile (\<lambda>c. c \<noteq> sep) s # ws"
  by (induction s) (auto split: list.split)

lemma extract_city_failed:
  assumes "chat_create up ''gpt-4o-mini'' [(''system'', JStr city_prompt), (''user'', u)] ''0'' = Inl e"
  shows "fst (extract_city up u log) = JNull"
  using assms by (simp add: extract_city_def do_chat_def bindE_def)

lemma extract_city_answer:
  assumes "chat_create up ''gpt-4o-mini'' [(''system'', JStr city_prompt), (''user'', u)] ''0'' =
             Inr (Some s # cs)"
  shows "fst (extract_city up u log) = JStr (py_strip s)"
  using assms by (simp add: extract_city_def do_chat_def bindE_def first_content_def)

lemma fallback_city_failed:
  assumes "requests_get up (nominatim_url (py_str u)) travel_buddy_headers = Inl e"
  shows "fst (fallback_city up u city log) = city"
  using assms by (simp add: fallback_city_def do_get_def bindE_def)

lemma fallback_city_found:
  assumes "requests_get up (nominatim_url (py_str u)) travel_buddy_headers = Inr res"
    and "json_body res = Inr (JArr (JObj kvs # others))"
    and "map_of kvs ''display_name'' = Some (JStr s)"
    and "s \<noteq> []"
  shows "fst (fallback_city up u city log) = JStr (takeWhile (\<lambda>c. c \<noteq> CHR '','') s)"
proof -
  from py_split_first [of "CHR '',''" s] obtain ws
    where "py_split (CHR '','') s = takeWhile (\<lambda>c. c \<noteq> CHR '','') s # ws"
    by blast
  with assms show ?thesis
    by (simp add: fallback_city_def do_get_def bindE_def)
qed

lemma chat_after_itinerary:
  assumes "dict_get j ''message'' JNull = Inr u"
    and "is_greeting u = Inr False"
    and "chat_create up ''gpt-4o-mini'' [(''system'', JStr system_prompt), (''user'', u)] ''0.7'' =
           Inr (c # cs)"
  shows "status (fst (chat builtin_msg up (Inr j) log)) = 200 \<and>
         getitem_str (body (fst (chat builtin_msg up (Inr j) log))) ''reply'' =
           Inr (case c of None \<Rightarrow> JNull | Some s \<Rightarrow> JStr s) \<and>
         getitem_str (body (fst (chat builtin_msg up (Inr j) log))) ''city'' =
           Inr (let l = log @ [ChatCompletion ''gpt-4o-mini''
                                 [(''system'', JStr system_prompt), (''user'', u)] ''0.7''];
                    city = fst (extract_city up u l)
                in if \<not> truthy city
                   then fst (fallback_city up u city (snd (extract_city up u l))) else city)"
  using assms
  by (simp add: chat_def chat_try_def catch_500_def bindE_def jsonify_def do_chat_def
      first_content_def Let_def)

text \<open>
  Claim C6 (a failure in the fallback step is swallowed and leaves city null) at a
  request where the extraction yields an empty result and the fallback fails: the model
  answers the city request with a blank, \<^verbatim>\<open>.strip()\<close> makes it the empty string, the
  geocoding call raises, and the handler returns 200 with the reply and the city "",
  not null. Line 105 resets an empty city to None only when a result was found.
\<close>

theorem chat_blank_city_not_null:
  "requests_get (planner '' '') (nominatim_url ''Plan a trip'') travel_buddy_headers =
     Inl (LibraryError ''Connection refused'') \<and>
   fst (chat plain_msg (planner '' '') (Inr (JObj [(''message'', JStr ''Plan a trip'')])) []) =
     \<lparr>status = 200,
       body = JObj [(''reply'', JStr ''Day 1: - Morning: walk''), (''city'', JStr [])]\<rparr> \<and>
   length (snd (chat plain_msg (planner '' '') (Inr (JObj [(''message'', JStr ''Plan a trip'')])) [])) = 3"
  by (simp add: chat_defs run_defs planner_def string_defs Let_def)

section \<open>Required parameters\<close>

lemma hotels_city_required:
  "args_get args ''city'' = None \<Longrightarrow>
   hotels builtin_msg cfg up args log =
     (\<lparr>status = 400, body = JObj [(''error'', JStr ''City is required'')]\<rparr>, log)"
  by (simp add: hotels_def jsonify_def error_body_def)

lemma geocode_place_required:
  "args_get args ''place'' = None \<Longrightarrow>
   geocode builtin_msg up args log =
     (\<lparr>status = 400, body = JObj [(''error'', JStr ''Place is required'')]\<rparr>, log)"
  by (simp add: geocode_def jsonify_def error_body_def)

text \<open>
  Claim C4 (every endpoint answers 400 when its required parameter is missing, before
  doing anything else) at a /chat request whose body has no message: the handler reads
  the missing message as None, does not answer 400, and its first step is to send that
  None to the model. The other three handlers do answer 400 first (the two lemmas above
  and the /weather theorem).
\<close>

theorem chat_message_not_required:
  "dict_get (JObj []) ''message'' JNull = Inr JNull \<and>
   status (fst (chat builtin_msg up (Inr (JObj [])) log)) \<noteq> 400 \<and>
   take (Suc (length log)) (snd (chat builtin_msg up (Inr (JObj [])) log)) =
     log @ [ChatCompletion ''gpt-4o-mini''
              [(''system'', JStr system_prompt), (''user'', JNull)] ''0.7'']"
  by (simp add: chat_def chat_try_def is_greeting_def catch_500_def bindE_def jsonify_def
      do_chat_def Let_def fallback_city_log extract_city_log split: sum.split)

end
